theory Spec2Isabelle
  imports Complex_Main "HOL-Library.Word"
begin

unbundle bit_operations_syntax

section \<open>JavaScript numbers and their operators\<close>

text \<open>
  The driver (\<^verbatim>\<open>src/bno055.ts\<close>) computes on TypeScript \<^verbatim>\<open>number\<close>s.  Wherever the code
  does integer or bitwise arithmetic the number is an \<^typ>\<open>int\<close>; the result of the \<^verbatim>\<open>/\<close>
  operator is a \<^typ>\<open>real\<close> (the exact quotient, IEEE rounding left aside).  The bitwise
  operators of JavaScript first bring each operand into the signed 32-bit range
  (\<^verbatim>\<open>ToInt32\<close>) and yield a signed 32-bit result; \<^verbatim>\<open>&&\<close> is no bitwise operator: it yields
  its left operand when that is falsy (zero) and its right operand otherwise.
\<close>

definition ToInt32 :: "int \<Rightarrow> int" where
  "ToInt32 n = signed_take_bit 31 n"

definition js_and :: "int \<Rightarrow> int \<Rightarrow> int" where
  \<comment> \<open>\<^verbatim>\<open>a & b\<close>\<close>
  "js_and a b = ToInt32 a AND ToInt32 b"

definition js_or :: "int \<Rightarrow> int \<Rightarrow> int" where
  \<comment> \<open>\<^verbatim>\<open>a | b\<close>\<close>
  "js_or a b = ToInt32 a OR ToInt32 b"

definition js_shl :: "int \<Rightarrow> nat \<Rightarrow> int" where
  \<comment> \<open>\<^verbatim>\<open>a << k\<close>\<close>
  "js_shl a k = ToInt32 (push_bit (k mod 32) (ToInt32 a))"

definition js_sar :: "int \<Rightarrow> nat \<Rightarrow> int" where
  \<comment> \<open>\<^verbatim>\<open>a >> k\<close>, the sign-propagating shift\<close>
  "js_sar a k = drop_bit (k mod 32) (ToInt32 a)"

definition js_land :: "int \<Rightarrow> int \<Rightarrow> int" where
  \<comment> \<open>\<^verbatim>\<open>a && b\<close> on numbers\<close>
  "js_land a b = (if a = 0 then a else b)"

definition hexDigit :: "nat \<Rightarrow> char" where
  "hexDigit d = ''0123456789abcdef'' ! d"

function toString16 :: "nat \<Rightarrow> string" where
  \<comment> \<open>\<^verbatim>\<open>n.toString(16)\<close> for a non-negative integer\<close>
  "toString16 n = (if n < 16 then [hexDigit n] else toString16 (n div 16) @ [hexDigit (n mod 16)])"
  by pat_completeness auto
termination
  by (relation "measure id") auto

function toString10 :: "nat \<Rightarrow> string" where
  \<comment> \<open>a non-negative integer inside a template literal\<close>
  "toString10 n = (if n < 10 then [hexDigit n] else toString10 (n div 10) @ [hexDigit (n mod 10)])"
  by pat_completeness auto
termination
  by (relation "measure id") auto

declare toString16.simps [simp del]
declare toString10.simps [simp del]


section \<open>The register table (\<^verbatim>\<open>src/constants.ts\<close>)\<close>

named_theorems constants \<open>the entries of the constants table\<close>

definition BNO055_ID :: int where [constants]: "BNO055_ID = 0xA0"
definition CHIP_ID :: int where [constants]: "CHIP_ID = 0x00"
definition PAGE_ID :: int where [constants]: "PAGE_ID = 0x07"
definition CALIB_STAT :: int where [constants]: "CALIB_STAT = 0x35"
definition SELFTEST_RESULT :: int where [constants]: "SELFTEST_RESULT = 0x36"
definition OPR_MODE :: int where [constants]: "OPR_MODE = 0x3D"
definition SYS_TRIGGER :: int where [constants]: "SYS_TRIGGER = 0x3F"

definition ACCEL_OFFSET_START :: int where [constants]: "ACCEL_OFFSET_START = 0x55"
definition ACCEL_OFFSET_X_LSB :: int where [constants]: "ACCEL_OFFSET_X_LSB = 0x55"
definition ACCEL_OFFSET_X_MSB :: int where [constants]: "ACCEL_OFFSET_X_MSB = 0x56"
definition ACCEL_OFFSET_Y_LSB :: int where [constants]: "ACCEL_OFFSET_Y_LSB = 0x57"
definition ACCEL_OFFSET_Y_MSB :: int where [constants]: "ACCEL_OFFSET_Y_MSB = 0x58"
definition ACCEL_OFFSET_Z_LSB :: int where [constants]: "ACCEL_OFFSET_Z_LSB = 0x59"
definition ACCEL_OFFSET_Z_MSB :: int where [constants]: "ACCEL_OFFSET_Z_MSB = 0x5A"

definition MAG_OFFSET_START :: int where [constants]: "MAG_OFFSET_START = 0x55"
definition MAG_OFFSET_X_LSB :: int where [constants]: "MAG_OFFSET_X_LSB = 0x5B"
definition MAG_OFFSET_X_MSB :: int where [constants]: "MAG_OFFSET_X_MSB = 0x5C"
definition MAG_OFFSET_Y_LSB :: int where [constants]: "MAG_OFFSET_Y_LSB = 0x5D"
definition MAG_OFFSET_Y_MSB :: int where [constants]: "MAG_OFFSET_Y_MSB = 0x5E"
definition MAG_OFFSET_Z_LSB :: int where [constants]: "MAG_OFFSET_Z_LSB = 0x5F"
definition MAG_OFFSET_Z_MSB :: int where [constants]: "MAG_OFFSET_Z_MSB = 0x60"

definition GYRO_OFFSET_START :: int where [constants]: "GYRO_OFFSET_START = 0x55"
definition GYRO_OFFSET_X_LSB :: int where [constants]: "GYRO_OFFSET_X_LSB = 0x61"
definition GYRO_OFFSET_X_MSB :: int where [constants]: "GYRO_OFFSET_X_MSB = 0x62"
definition GYRO_OFFSET_Y_LSB :: int where [constants]: "GYRO_OFFSET_Y_LSB = 0x63"
definition GYRO_OFFSET_Y_MSB :: int where [constants]: "GYRO_OFFSET_Y_MSB = 0x64"
definition GYRO_OFFSET_Z_LSB :: int where [constants]: "GYRO_OFFSET_Z_LSB = 0x65"
definition GYRO_OFFSET_Z_MSB :: int where [constants]: "GYRO_OFFSET_Z_MSB = 0x66"

definition ACCEL_RADIUS_LSB :: int where [constants]: "ACCEL_RADIUS_LSB = 0x67"
definition ACCEL_RADIUS_MSB :: int where [constants]: "ACCEL_RADIUS_MSB = 0x68"
definition MAG_RADIUS_LSB :: int where [constants]: "MAG_RADIUS_LSB = 0x69"
definition MAG_RADIUS_MSB :: int where [constants]: "MAG_RADIUS_MSB = 0x6A"

definition ADDRESS_A :: int where [constants]: "ADDRESS_A = 0x28"

definition OPERATION_MODE_CONFIG :: int where [constants]: "OPERATION_MODE_CONFIG = 0x00"
definition OPERATION_MODE_ACCONLY :: int where [constants]: "OPERATION_MODE_ACCONLY = 0x01"
definition OPERATION_MODE_MAGONLY :: int where [constants]: "OPERATION_MODE_MAGONLY = 0x02"
definition OPERATION_MODE_GYRONLY :: int where [constants]: "OPERATION_MODE_GYRONLY = 0x03"
definition OPERATION_MODE_ACCMAG :: int where [constants]: "OPERATION_MODE_ACCMAG = 0x04"
definition OPERATION_MODE_ACCGYRO :: int where [constants]: "OPERATION_MODE_ACCGYRO = 0x05"
definition OPERATION_MODE_MAGGYRO :: int where [constants]: "OPERATION_MODE_MAGGYRO = 0x06"
definition OPERATION_MODE_AMG :: int where [constants]: "OPERATION_MODE_AMG = 0x07"
definition OPERATION_MODE_IMUPLUS :: int where [constants]: "OPERATION_MODE_IMUPLUS = 0x08"
definition OPERATION_MODE_COMPASS :: int where [constants]: "OPERATION_MODE_COMPASS = 0x09"
definition OPERATION_MODE_M4G :: int where [constants]: "OPERATION_MODE_M4G = 0x0A"
definition OPERATION_MODE_NDOF_FMC_OFF :: int where [constants]: "OPERATION_MODE_NDOF_FMC_OFF = 0x0B"
definition OPERATION_MODE_NDOF :: int where [constants]: "OPERATION_MODE_NDOF = 0x0C"

definition SYSTEM_TRIGGER_RESET :: int where [constants]: "SYSTEM_TRIGGER_RESET = 0x20"


section \<open>The codec: the module-level functions at the end of \<^verbatim>\<open>src/bno055.ts\<close>\<close>

definition fromInt16 :: "int \<Rightarrow> int" where
  "fromInt16 int16 = (if js_and 0x8000 int16 \<noteq> 0 then int16 - 0x10000 else int16)"

definition int16ToLsb :: "int \<Rightarrow> int" where
  "int16ToLsb int16 =
     (if int16 < 0 then js_land (int16 + 0x10000) 0xff else js_and int16 0xff)"

definition int16ToMsb :: "int \<Rightarrow> int" where
  \<comment> \<open>\<^verbatim>\<open>>>\<close> binds tighter than \<^verbatim>\<open>&&\<close> and than \<^verbatim>\<open>&\<close>\<close>
  "int16ToMsb int16 =
     (if int16 < 0 then js_land (js_sar (int16 + 0x10000) 8) 0xff
      else js_and (js_sar int16 8) 0xff)"

definition decodeInt16 :: "int \<Rightarrow> int \<Rightarrow> int" where
  \<comment> \<open>the expression \<^verbatim>\<open>fromInt16((msb << 8) | lsb)\<close>, written out at every place a register
      pair is decoded\<close>
  "decodeInt16 lsb msb = fromInt16 (js_or (js_shl msb 8) lsb)"


section \<open>The data model\<close>

record 'n Vector =
  x :: 'n
  y :: 'n
  z :: 'n

datatype Bno055Mode =
    acconly | magonly | gyronly | accmag | accgyro | maggyro | amg | imuplus | compass
  | m4g | ndof_fmc_off | ndof

datatype Bno055ModeWithConfig = config | operating Bno055Mode

record 'n Bno055CalibrationData =
  accelerometerOffset :: "'n Vector"
  accelerometerRadius :: 'n
  gyroscopeOffset :: "'n Vector"
  magnetometerOffset :: "'n Vector"
  magnetometerRadius :: 'n


section \<open>The bus and the world the driver runs in\<close>

text \<open>
  The \<^verbatim>\<open>i2c-bus\<close> object is an external collaborator.  It is a state machine over the state
  \<^typ>\<open>'d\<close> of the attached chip: each method takes the device address, the register and the
  chip's state and yields what the callback receives together with the chip's next state.
  A callback receives either an error or the data (\<open>Inl\<close> the error).  A block read hands
  back the bytes it has read, so \<^verbatim>\<open>bytesRead\<close> is their number and they are the contents of
  the buffer.  The last field is no method of the bus: it says how the chip's state moves
  while the driver waits on a timer for the given number of milliseconds.
\<close>

record 'd I2cBus =
  readByte :: "int \<Rightarrow> int \<Rightarrow> 'd \<Rightarrow> (string + 8 word) \<times> 'd"
  readI2cBlock :: "int \<Rightarrow> int \<Rightarrow> nat \<Rightarrow> 'd \<Rightarrow> (string + 8 word list) \<times> 'd"
  writeByte :: "int \<Rightarrow> int \<Rightarrow> int \<Rightarrow> 'd \<Rightarrow> string option \<times> 'd"
  elapse :: "nat \<Rightarrow> 'd \<Rightarrow> 'd"

text \<open>
  What passes between the driver and its environment, in order: each bus transaction with
  the device address and register (and the length or the value) and what the callback
  received, and each timer with its delay.
\<close>

datatype event =
    ReadByte int int "string + 8 word"
  | ReadI2cBlock int int nat "string + 8 word list"
  | WriteByte int int int "string option"
  | Timer nat

record 'd world =
  chip :: 'd
  journal :: "event list"

text \<open>
  An error notification carries either the error object the bus handed to the callback or
  a string the driver made itself.
\<close>

datatype thrown = BusError string | Text string

text \<open>
  A single bus transaction always calls back: it is a total state transformer.  An
  observable composed from transactions, timers and polling loops may go on for ever: it
  yields \<open>None\<close> then, and otherwise the error or the value it ends with.  Only observables
  that deliver at most one value are modelled (a value of type \<^typ>\<open>unit\<close> for the
  \<^verbatim>\<open>Observable<never>\<close> that just completes), for one subscriber.
\<close>

type_synonym ('d, 'a) action = "'d world \<Rightarrow> (thrown + 'a) \<times> 'd world"
type_synonym ('d, 'a) observable = "'d world \<Rightarrow> ((thrown + 'a) \<times> 'd world) option"

definition once :: "('d, 'a) action \<Rightarrow> ('d, 'a) observable" where
  "once a w = Some (a w)"

definition emptyObservable :: "('d, unit) observable" where
  "emptyObservable w = Some (Inr (), w)"

definition throwObservable :: "thrown \<Rightarrow> ('d, 'a) observable" where
  "throwObservable e w = Some (Inl e, w)"

definition mergeMap :: "('a \<Rightarrow> ('d, 'b) observable) \<Rightarrow> ('d, 'a) observable \<Rightarrow> ('d, 'b) observable" where
  "mergeMap f src w =
     (case src w of
        None \<Rightarrow> None
      | Some (Inl e, w') \<Rightarrow> Some (Inl e, w')
      | Some (Inr v, w') \<Rightarrow> f v w')"

definition mapAction :: "('a \<Rightarrow> 'b) \<Rightarrow> ('d, 'a) action \<Rightarrow> ('d, 'b) action" where
  \<comment> \<open>the \<^verbatim>\<open>map\<close> operator on a single transaction\<close>
  "mapAction f a w = (case a w of (Inl e, w') \<Rightarrow> (Inl e, w') | (Inr v, w') \<Rightarrow> (Inr (f v), w'))"

fun concatObservable :: "('d, unit) observable list \<Rightarrow> ('d, unit) observable" where
  "concatObservable [] w = Some (Inr (), w)"
| "concatObservable (ob # obs) w =
     (case ob w of
        None \<Rightarrow> None
      | Some (Inl e, w') \<Rightarrow> Some (Inl e, w')
      | Some (Inr u, w') \<Rightarrow> concatObservable obs w')"

definition timerElapsed :: "'d I2cBus \<Rightarrow> nat \<Rightarrow> 'd world \<Rightarrow> 'd world" where
  \<comment> \<open>a timer of \<open>ms\<close> milliseconds runs out\<close>
  "timerElapsed bus ms w = \<lparr>chip = elapse bus ms (chip w), journal = journal w @ [Timer ms]\<rparr>"

text \<open>
  The pipeline \<^verbatim>\<open>timer(0, period).pipe(mergeMap(read), takeWhile(p), ignoreElements())\<close>
  is represented by what it does at one expiry of its timer: the transaction, and whether
  \<^verbatim>\<open>takeWhile\<close> lets the value pass (\<open>True\<close>: the timer goes on).  Every such pipeline of the
  driver has the period 100 ms, and a transaction is taken to call back before the timer
  expires again.  \<^verbatim>\<open>merge\<close> subscribes to its pipelines in order; their timers expire
  together, so at each expiry every pipeline still running issues its transaction, in that
  order, and then the answers are looked at: an error ends the merge with that error, a
  pipeline whose \<^verbatim>\<open>takeWhile\<close> fails completes, and the merge completes when none is left.
\<close>

type_synonym 'd poller = "('d, bool) action"

fun expire :: "'d poller list \<Rightarrow> 'd world \<Rightarrow> (thrown + bool) list \<times> 'd world" where
  "expire [] w = ([], w)"
| "expire (p # ps) w =
     (case p w of (r, w') \<Rightarrow> (case expire ps w' of (rs, w'') \<Rightarrow> (r # rs, w'')))"

fun firstError :: "(thrown + 'a) list \<Rightarrow> thrown option" where
  "firstError [] = None"
| "firstError (Inl e # rs) = Some e"
| "firstError (Inr v # rs) = firstError rs"

fun stillRunning :: "'d poller list \<Rightarrow> (thrown + bool) list \<Rightarrow> 'd poller list" where
  "stillRunning (p # ps) (Inr True # rs) = p # stillRunning ps rs"
| "stillRunning (p # ps) (r # rs) = stillRunning ps rs"
| "stillRunning ps rs = []"

partial_function (option) mergeObservable :: "'d I2cBus \<Rightarrow> 'd poller list \<Rightarrow> ('d, unit) observable" where
  "mergeObservable bus ps w =
     (case expire ps w of
        (rs, w') \<Rightarrow>
          (case firstError rs of
             Some e \<Rightarrow> Some (Inl e, w')
           | None \<Rightarrow>
               (case stillRunning ps rs of
                  [] \<Rightarrow> Some (Inr (), w')
                | q # qs \<Rightarrow> mergeObservable bus (q # qs) (timerElapsed bus 100 w'))))"

definition subscribe :: "'d I2cBus \<Rightarrow> 'd poller \<Rightarrow> ('d, unit) observable" where
  \<comment> \<open>one polling pipeline on its own\<close>
  "subscribe bus p = mergeObservable bus [p]"


section \<open>The driver (class \<^verbatim>\<open>Bno055Driver\<close>)\<close>

text \<open>
  A private member \<^verbatim>\<open>_name\<close> of the class is \<open>priv_name\<close> here.  The debug sink is left
  out.  An instance is what the constructor's closures hold: the bus object, the address,
  and the two arguments it hands to \<^verbatim>\<open>_initialize\<close>.
\<close>

record 'd Bno055Options =
  i2c :: "'d I2cBus"
  address :: "int option"
  calibrationData :: "int Bno055CalibrationData option"
  mode :: Bno055Mode
  debug :: "bool option"

record 'd Bno055Driver =
  i2cObject :: "'d I2cBus"
  address :: int
  initMode :: Bno055Mode
  initCalibrationData :: "int Bno055CalibrationData option"

definition "constructor" :: "'d Bno055Options \<Rightarrow> 'd Bno055Driver" where
  \<comment> \<open>\<^verbatim>\<open>options.address || constants.ADDRESS_A\<close>: an absent address and the address 0 are
      both falsy\<close>
  "constructor options =
     \<lparr>i2cObject = i2c options,
      address = (case Bno055Options.address options of
                   None \<Rightarrow> ADDRESS_A
                 | Some a \<Rightarrow> if a = 0 then ADDRESS_A else a),
      initMode = mode options,
      initCalibrationData = calibrationData options\<rparr>"

subsection \<open>Register transactions\<close>

definition priv_readByte :: "'d Bno055Driver \<Rightarrow> int \<Rightarrow> ('d, 8 word) action" where
  "priv_readByte drv register w =
     (case readByte (i2cObject drv) (Bno055Driver.address drv) register (chip w) of
        (r, d) \<Rightarrow>
          ((case r of Inl err \<Rightarrow> Inl (BusError err) | Inr byte \<Rightarrow> Inr byte),
           \<lparr>chip = d, journal = journal w @ [ReadByte (Bno055Driver.address drv) register r]\<rparr>))"

definition priv_readBytes :: "'d Bno055Driver \<Rightarrow> int \<Rightarrow> nat \<Rightarrow> ('d, 8 word list) action" where
  "priv_readBytes drv register len w =
     (case readI2cBlock (i2cObject drv) (Bno055Driver.address drv) register len (chip w) of
        (r, d) \<Rightarrow>
          ((case r of
              Inl err \<Rightarrow> Inl (BusError err)
            | Inr buffer \<Rightarrow>
                if length buffer \<noteq> len
                then Inl (Text (''Incorrect number of bytes read (expected: '' @ toString10 len
                                  @ '', recieved: '' @ toString10 (length buffer) @ '')''))
                else Inr buffer),
           \<lparr>chip = d, journal = journal w @ [ReadI2cBlock (Bno055Driver.address drv) register len r]\<rparr>))"

definition priv_writeByte :: "'d Bno055Driver \<Rightarrow> int \<Rightarrow> int \<Rightarrow> ('d, unit) action" where
  "priv_writeByte drv register byte w =
     (case writeByte (i2cObject drv) (Bno055Driver.address drv) register byte (chip w) of
        (r, d) \<Rightarrow>
          ((case r of Some err \<Rightarrow> Inl (BusError err) | None \<Rightarrow> Inr ()),
           \<lparr>chip = d, journal = journal w @ [WriteByte (Bno055Driver.address drv) register byte r]\<rparr>))"

subsection \<open>Decoding\<close>

definition byteAt :: "8 word list \<Rightarrow> nat \<Rightarrow> int" where
  \<comment> \<open>\<^verbatim>\<open>buffer[i]\<close> under a bitwise operator: a read past the end is \<^verbatim>\<open>undefined\<close>, which
      \<^verbatim>\<open>ToInt32\<close> takes to 0\<close>
  "byteAt buffer i = (if i < length buffer then uint (buffer ! i) else 0)"

definition priv_bufferToVector :: "8 word list \<Rightarrow> int \<Rightarrow> real Vector" where
  "priv_bufferToVector buffer divisor =
     \<lparr>x = real_of_int (fromInt16 (js_or (js_shl (byteAt buffer 1) 8) (byteAt buffer 0))) / real_of_int divisor,
      y = real_of_int (fromInt16 (js_or (js_shl (byteAt buffer 3) 8) (byteAt buffer 2))) / real_of_int divisor,
      z = real_of_int (fromInt16 (js_or (js_shl (byteAt buffer 5) 8) (byteAt buffer 4))) / real_of_int divisor\<rparr>"

definition priv_readNumber :: "'d Bno055Driver \<Rightarrow> int \<Rightarrow> string \<Rightarrow> ('d, int) action" where
  "priv_readNumber drv lsbAddress debugName =
     mapAction (\<lambda>buffer. fromInt16 (js_or (js_shl (byteAt buffer 1) 8) (byteAt buffer 0)))
       (priv_readBytes drv lsbAddress 2)"

definition priv_readVector :: "'d Bno055Driver \<Rightarrow> int \<Rightarrow> int \<Rightarrow> string \<Rightarrow> ('d, real Vector) action" where
  "priv_readVector drv startAddress divisor debugName =
     mapAction (\<lambda>buffer. priv_bufferToVector buffer divisor) (priv_readBytes drv startAddress 6)"

subsection \<open>Timers and mode switches\<close>

definition priv_delay :: "'d Bno055Driver \<Rightarrow> nat \<Rightarrow> ('d, unit) observable" where
  \<comment> \<open>\<^verbatim>\<open>timerObservable(1000).pipe(ignoreElements())\<close>\<close>
  "priv_delay drv delayInMs w = Some (Inr (), timerElapsed (i2cObject drv) 1000 w)"

definition priv_setMode :: "'d Bno055Driver \<Rightarrow> Bno055ModeWithConfig \<Rightarrow> ('d, unit) observable" where
  "priv_setMode drv m =
     (let modeValue =
            (if m = operating accgyro then OPERATION_MODE_ACCGYRO
             else if m = operating accmag then OPERATION_MODE_ACCMAG
             else if m = operating acconly then OPERATION_MODE_ACCONLY
             else if m = operating amg then OPERATION_MODE_AMG
             else if m = operating compass then OPERATION_MODE_COMPASS
             else if m = operating gyronly then OPERATION_MODE_GYRONLY
             else if m = operating imuplus then OPERATION_MODE_IMUPLUS
             else if m = operating m4g then OPERATION_MODE_M4G
             else if m = operating maggyro then OPERATION_MODE_MAGGYRO
             else if m = operating magonly then OPERATION_MODE_MAGONLY
             else if m = operating ndof then OPERATION_MODE_NDOF
             else if m = operating ndof_fmc_off then OPERATION_MODE_NDOF_FMC_OFF
             else OPERATION_MODE_CONFIG)
      in concatObservable [once (priv_writeByte drv OPR_MODE modeValue), priv_delay drv 30])"

subsection \<open>Boot, page, self test, reset\<close>

definition priv_confirmBoot :: "'d Bno055Driver \<Rightarrow> ('d, unit) observable" where
  "priv_confirmBoot drv =
     subscribe (i2cObject drv)
       (mapAction (\<lambda>byte. uint byte \<noteq> BNO055_ID) (priv_readByte drv CHIP_ID))"

definition priv_confirmSelfTest :: "'d Bno055Driver \<Rightarrow> ('d, unit) observable" where
  "priv_confirmSelfTest drv =
     mergeMap
       (\<lambda>byte. if js_and (uint byte) 0xF = 0xF then emptyObservable
               else throwObservable (Text (''Self test failed, got 0x'' @ toString16 (unat byte) @ ''.'')))
       (once (priv_readByte drv SELFTEST_RESULT))"

definition priv_ensurePage :: "'d Bno055Driver \<Rightarrow> int \<Rightarrow> ('d, unit) observable" where
  "priv_ensurePage drv page =
     mergeMap
       (\<lambda>byte. if uint byte = page then emptyObservable else once (priv_writeByte drv PAGE_ID page))
       (once (priv_readByte drv PAGE_ID))"

definition priv_reset :: "'d Bno055Driver \<Rightarrow> ('d, unit) observable" where
  "priv_reset drv =
     concatObservable
       [once (priv_writeByte drv SYS_TRIGGER SYSTEM_TRIGGER_RESET), priv_delay drv 1000]"

definition priv_initializePreCalibration :: "'d Bno055Driver \<Rightarrow> ('d, unit) observable" where
  "priv_initializePreCalibration drv =
     concatObservable
       [priv_confirmBoot drv,
        priv_ensurePage drv 0,
        priv_confirmSelfTest drv,
        priv_setMode drv config,
        priv_reset drv,
        priv_confirmBoot drv]"

subsection \<open>Calibration\<close>

definition priv_awaitCalibrationPart :: "'d Bno055Driver \<Rightarrow> int \<Rightarrow> string \<Rightarrow> 'd poller" where
  "priv_awaitCalibrationPart drv bitsToCheck name =
     mapAction (\<lambda>byte. js_and (uint byte) bitsToCheck \<noteq> bitsToCheck) (priv_readByte drv CALIB_STAT)"

definition priv_awaitCalibration :: "'d Bno055Driver \<Rightarrow> ('d, unit) observable" where
  "priv_awaitCalibration drv =
     concatObservable
       [priv_setMode drv (operating ndof_fmc_off),
        mergeObservable (i2cObject drv)
          [priv_awaitCalibrationPart drv 0x03 ''magnetometer'',
           priv_awaitCalibrationPart drv 0x0C ''accelerometer'',
           priv_awaitCalibrationPart drv 0x30 ''gyroscope'',
           priv_awaitCalibrationPart drv 0xC0 ''system'']]"

definition zip2 :: "(thrown + 'a) \<Rightarrow> (thrown + 'b) \<Rightarrow> thrown + 'a \<times> 'b" where
  "zip2 r s =
     (case r of Inl e \<Rightarrow> Inl e | Inr a \<Rightarrow> (case s of Inl e \<Rightarrow> Inl e | Inr b \<Rightarrow> Inr (a, b)))"

definition priv_readCalibration :: "'d Bno055Driver \<Rightarrow> ('d, real Bno055CalibrationData) action" where
  \<comment> \<open>\<^verbatim>\<open>zip\<close> subscribes to its five reads at once, so all five are issued; the first error
      wins\<close>
  "priv_readCalibration drv w =
     (case priv_readVector drv ACCEL_OFFSET_START 1 ''accelerometer offset'' w of (r1, w1) \<Rightarrow>
      case priv_readNumber drv ACCEL_RADIUS_LSB ''accelerometer radius'' w1 of (r2, w2) \<Rightarrow>
      case priv_readVector drv GYRO_OFFSET_START 1 ''gyroscope offset'' w2 of (r3, w3) \<Rightarrow>
      case priv_readVector drv MAG_OFFSET_START 1 ''magnometer offset'' w3 of (r4, w4) \<Rightarrow>
      case priv_readNumber drv MAG_RADIUS_LSB ''acceleration radius'' w4 of (r5, w5) \<Rightarrow>
        ((case zip2 r1 (zip2 r2 (zip2 r3 (zip2 r4 r5))) of
            Inl e \<Rightarrow> Inl e
          | Inr (accelerometerOffset', accelerometerRadius', gyroscopeOffset',
                 magnetometerOffset', magnetometerRadius') \<Rightarrow>
              Inr \<lparr>accelerometerOffset = accelerometerOffset',
                   accelerometerRadius = real_of_int accelerometerRadius',
                   gyroscopeOffset = gyroscopeOffset',
                   magnetometerOffset = magnetometerOffset',
                   magnetometerRadius = real_of_int magnetometerRadius'\<rparr>),
         w5))"

definition priv_writeCalibrationData :: "'d Bno055Driver \<Rightarrow> int Bno055CalibrationData \<Rightarrow> ('d, unit) observable" where
  "priv_writeCalibrationData drv cal =
     concatObservable
       [once (priv_writeByte drv ACCEL_OFFSET_X_LSB (int16ToLsb (x (accelerometerOffset cal)))),
        once (priv_writeByte drv ACCEL_OFFSET_X_MSB (int16ToMsb (x (accelerometerOffset cal)))),
        once (priv_writeByte drv ACCEL_OFFSET_Y_LSB (int16ToLsb (y (accelerometerOffset cal)))),
        once (priv_writeByte drv ACCEL_OFFSET_Y_MSB (int16ToMsb (y (accelerometerOffset cal)))),
        once (priv_writeByte drv ACCEL_OFFSET_Z_LSB (int16ToLsb (z (accelerometerOffset cal)))),
        once (priv_writeByte drv ACCEL_OFFSET_Z_MSB (int16ToMsb (z (accelerometerOffset cal)))),
        once (priv_writeByte drv ACCEL_RADIUS_LSB (int16ToLsb (accelerometerRadius cal))),
        once (priv_writeByte drv ACCEL_RADIUS_MSB (int16ToMsb (accelerometerRadius cal))),
        once (priv_writeByte drv GYRO_OFFSET_X_LSB (int16ToLsb (x (gyroscopeOffset cal)))),
        once (priv_writeByte drv GYRO_OFFSET_X_MSB (int16ToMsb (x (gyroscopeOffset cal)))),
        once (priv_writeByte drv GYRO_OFFSET_Y_LSB (int16ToLsb (y (gyroscopeOffset cal)))),
        once (priv_writeByte drv GYRO_OFFSET_Y_MSB (int16ToMsb (y (gyroscopeOffset cal)))),
        once (priv_writeByte drv GYRO_OFFSET_Z_LSB (int16ToLsb (z (gyroscopeOffset cal)))),
        once (priv_writeByte drv GYRO_OFFSET_Z_MSB (int16ToMsb (z (gyroscopeOffset cal)))),
        once (priv_writeByte drv MAG_OFFSET_X_LSB (int16ToLsb (x (magnetometerOffset cal)))),
        once (priv_writeByte drv MAG_OFFSET_X_MSB (int16ToMsb (x (magnetometerOffset cal)))),
        once (priv_writeByte drv MAG_OFFSET_Y_LSB (int16ToLsb (y (magnetometerOffset cal)))),
        once (priv_writeByte drv MAG_OFFSET_Y_MSB (int16ToMsb (y (magnetometerOffset cal)))),
        once (priv_writeByte drv MAG_OFFSET_Z_LSB (int16ToLsb (z (magnetometerOffset cal)))),
        once (priv_writeByte drv MAG_OFFSET_Z_MSB (int16ToMsb (z (magnetometerOffset cal)))),
        once (priv_writeByte drv MAG_RADIUS_LSB (int16ToLsb (magnetometerRadius cal))),
        once (priv_writeByte drv MAG_RADIUS_MSB (int16ToMsb (magnetometerRadius cal)))]"

definition priv_setOrAwaitCalibrationData :: "'d Bno055Driver \<Rightarrow> int Bno055CalibrationData option \<Rightarrow> ('d, unit) observable" where
  "priv_setOrAwaitCalibrationData drv cal =
     (case cal of
        Some given \<Rightarrow> priv_writeCalibrationData drv given
      | None \<Rightarrow> priv_awaitCalibration drv)"

subsection \<open>The two initialization streams and the calibration accessor\<close>

definition preCalibrationInitializationStream :: "'d Bno055Driver \<Rightarrow> ('d, unit) observable" where
  "preCalibrationInitializationStream drv = priv_initializePreCalibration drv"

definition priv_initialize :: "'d Bno055Driver \<Rightarrow> Bno055Mode \<Rightarrow> int Bno055CalibrationData option \<Rightarrow> ('d, unit) observable" where
  "priv_initialize drv m cal =
     concatObservable
       [preCalibrationInitializationStream drv,
        priv_setOrAwaitCalibrationData drv cal,
        priv_setMode drv (operating m)]"

definition initializationStream :: "'d Bno055Driver \<Rightarrow> ('d, unit) observable" where
  "initializationStream drv = priv_initialize drv (initMode drv) (initCalibrationData drv)"

definition getCalibrationData :: "'d Bno055Driver \<Rightarrow> ('d, real Bno055CalibrationData) observable" where
  "getCalibrationData drv =
     mergeMap
       (\<lambda>u. mergeMap (\<lambda>u. once (priv_readCalibration drv)) (priv_awaitCalibration drv))
       (preCalibrationInitializationStream drv)"


section \<open>Chips to run the driver on\<close>

text \<open>
  Four simple environments for running the driver on concrete inputs.  \<open>registerFile\<close> is a
  chip that is nothing but its registers: a read yields the register's contents, a write
  stores the low byte, a block read yields consecutive registers, time changes nothing.
  \<open>answering\<close> gives every block read the same fixed answer.  The two status chips hold
  the values their status register is going to show: \<open>statusPerExpiry\<close> moves to the next
  value each time the 100 ms polling timer expires, \<open>statusPerRead\<close> each time the register
  is read; both stay at the last value.
\<close>

definition registerFile :: "(int \<Rightarrow> 8 word) I2cBus" where
  "registerFile =
     \<lparr>readByte = (\<lambda>a r d. (Inr (d r), d)),
      readI2cBlock = (\<lambda>a r n d. (Inr (map (\<lambda>i. d (r + int i)) [0..<n]), d)),
      writeByte = (\<lambda>a r v d. (None, d(r := word_of_int v))),
      elapse = (\<lambda>ms d. d)\<rparr>"

definition answering :: "(string + 8 word list) \<Rightarrow> unit I2cBus" where
  "answering ans =
     \<lparr>readByte = (\<lambda>a r d. (Inr 0, d)),
      readI2cBlock = (\<lambda>a r n d. (ans, d)),
      writeByte = (\<lambda>a r v d. (None, d)),
      elapse = (\<lambda>ms d. d)\<rparr>"



definition driverOn :: "'d I2cBus \<Rightarrow> 'd Bno055Driver" where
  \<comment> \<open>\<^verbatim>\<open>new Bno055Driver({ i2c: bus, mode: "ndof" })\<close>\<close>
  "driverOn bus =
     constructor \<lparr>i2c = bus, address = None, calibrationData = None, mode = ndof, debug = None\<rparr>"


section \<open>The calibration writes as the specification lists them\<close>

text \<open>
  These two definitions follow the specification's words, not the code: the eleven 16-bit
  fields in the stated order, each with the register of its low byte (the register of the
  high byte is the next one), and for each field one write of its low byte followed by one
  write of its high byte, every write acknowledged.  The two bytes are those of the
  field's 16-bit two's-complement form: the field modulo 256, and the field divided by 256
  (rounding down) modulo 256.  They are what \<^verbatim>\<open>_writeCalibrationData\<close> is compared with.
\<close>

definition spec_calibrationFields :: "int Bno055CalibrationData \<Rightarrow> (int \<times> int) list" where
  "spec_calibrationFields cal =
     [(0x55, x (accelerometerOffset cal)), (0x57, y (accelerometerOffset cal)),
      (0x59, z (accelerometerOffset cal)),
      (0x67, accelerometerRadius cal),
      (0x61, x (gyroscopeOffset cal)), (0x63, y (gyroscopeOffset cal)),
      (0x65, z (gyroscopeOffset cal)),
      (0x5B, x (magnetometerOffset cal)), (0x5D, y (magnetometerOffset cal)),
      (0x5F, z (magnetometerOffset cal)),
      (0x69, magnetometerRadius cal)]"

definition spec_calibrationWrites :: "int \<Rightarrow> int Bno055CalibrationData \<Rightarrow> event list" where
  "spec_calibrationWrites a cal =
     concat (map (\<lambda>(lsbRegister, field).
                    [WriteByte a lsbRegister (field mod 256) None,
                     WriteByte a (lsbRegister + 1) (field div 256 mod 256) None])
                 (spec_calibrationFields cal))"


section \<open>Facts about the number operators\<close>

lemmas js_ops = js_and_def js_or_def js_shl_def js_sar_def js_land_def ToInt32_def

lemma ToInt32_small: "- 2147483648 \<le> k \<Longrightarrow> k < 2147483648 \<Longrightarrow> ToInt32 k = k"
  unfolding ToInt32_def by (rule signed_take_bit_int_eq_self) simp_all

lemma ToInt32_uint8: "ToInt32 (uint (b :: 8 word)) = uint b"
proof -
  have "uint b < 256" using uint_lt2p [of b] by simp
  moreover have "0 \<le> uint b" by simp
  ultimately show ?thesis by (intro ToInt32_small) linarith+
qed

lemma js_and_byte:
  "0 \<le> m \<Longrightarrow> m < 256 \<Longrightarrow>
   (js_and (uint (b :: 8 word)) m = m) = (b AND word_of_int m = word_of_int m)"
proof -
  assume m: "0 \<le> m" "m < 256"
  then have tm: "ToInt32 m = m" by (intro ToInt32_small) linarith+
  have um: "uint (word_of_int m :: 8 word) = m"
    using m by (simp add: uint_word_of_int take_bit_int_eq_self)
  have "(b AND word_of_int m = word_of_int m)
          = (uint (b AND word_of_int m) = uint (word_of_int m :: 8 word))"
    by (simp add: word_uint_eq_iff)
  also have "\<dots> = (uint b AND m = m)" by (simp add: uint_and um)
  finally show ?thesis by (simp add: js_and_def tm ToInt32_uint8)
qed


text \<open>The hexadecimal rendering of a number determines the number.\<close>

lemma toString16_inj: "toString16 a = toString16 b \<Longrightarrow> a = b"
proof -
  define val :: "char \<Rightarrow> nat" where
    "val = (\<lambda>c. length (takeWhile (\<lambda>digit. digit \<noteq> c) ''0123456789abcdef''))"
  define fromHex :: "string \<Rightarrow> nat" where
    "fromHex = foldl (\<lambda>acc c. 16 * acc + val c) 0"
  have digit: "val (hexDigit d) = d" if "d < 16" for d
  proof -
    from that have "d \<in> {0, 1, 2, 3, 4, 5, 6, 7, 8, 9, 10, 11, 12, 13, 14, 15}" by simp arith
    then show ?thesis by (auto simp add: val_def hexDigit_def)
  qed
  have decoded: "fromHex (toString16 n) = n" for n
  proof (induction n rule: toString16.induct)
    case (1 n)
    show ?case
    proof (cases "n < 16")
      case True
      then show ?thesis by (simp add: toString16.simps [of n] fromHex_def digit)
    next
      case False
      with 1 have "fromHex (toString16 (n div 16)) = n div 16" by simp
      then have "fromHex (toString16 (n div 16) @ [hexDigit (n mod 16)]) = 16 * (n div 16) + n mod 16"
        by (simp add: fromHex_def digit)
      with False show ?thesis by (simp add: toString16.simps [of n])
    qed
  qed
  assume "toString16 a = toString16 b"
  then have "fromHex (toString16 a) = fromHex (toString16 b)" by simp
  then show "a = b" by (simp only: decoded)
qed



section \<open>The codec\<close>

text \<open>
  What the two encoders and the decoder do on the whole int16 range: from 0 to 32767 the
  bytes are the low and the high byte and decoding gives the value back; below zero both
  bytes are 0xff whatever the value, and decoding gives -1.
\<close>

lemma int16_encoders_below_zero:
  assumes "- 32768 \<le> v" "v < 0"
  shows "int16ToLsb v = 0xff \<and> int16ToMsb v = 0xff \<and>
         decodeInt16 (int16ToLsb v) (int16ToMsb v) = - 1"
proof -
  have t: "ToInt32 (v + 65536) = v + 65536"
    using assms by (intro ToInt32_small) linarith+
  have "(v + 65536) div 256 \<noteq> 0" using assms by linarith
  then have m: "js_sar (v + 0x10000) 8 \<noteq> 0"
    by (simp add: js_sar_def t drop_bit_eq_div)
  have l: "v + 0x10000 \<noteq> 0" using assms by linarith
  have lsb: "int16ToLsb v = 0xff" using assms l by (simp add: int16ToLsb_def js_land_def)
  have msb: "int16ToMsb v = 0xff" using assms m by (simp add: int16ToMsb_def js_land_def)
  have "decodeInt16 0xff 0xff = - 1"
    by (simp add: decodeInt16_def fromInt16_def js_ops)
  with lsb msb show ?thesis by simp
qed

lemma int16_roundtrip_from_zero:
  assumes "0 \<le> v" "v \<le> 32767"
  shows "int16ToLsb v = v mod 256 \<and> int16ToMsb v = v div 256 \<and>
         decodeInt16 (int16ToLsb v) (int16ToMsb v) = v"
proof -
  have tv: "ToInt32 v = v" using assms by (intro ToInt32_small) linarith+
  have t255: "ToInt32 255 = 255" by (simp add: ToInt32_def)
  have and255: "k AND 255 = k mod 256" for k :: int
    using take_bit_eq_mask [of 8 k] by (simp add: take_bit_eq_mod mask_eq_exp_minus_1)
  have lsb: "int16ToLsb v = v mod 256"
    using assms by (simp add: int16ToLsb_def js_and_def tv t255 and255)
  have hi: "0 \<le> v div 256" "v div 256 < 128" using assms by auto
  then have th: "ToInt32 (v div 256) = v div 256" by (intro ToInt32_small) linarith+
  have msb: "int16ToMsb v = v div 256"
    using assms hi by (simp add: int16ToMsb_def js_and_def js_sar_def tv t255 and255 drop_bit_eq_div th)
  have lo: "0 \<le> v mod 256" "v mod 256 < 256" by simp_all
  have tl: "ToInt32 (v mod 256) = v mod 256" using lo by (intro ToInt32_small) linarith+
  have sh: "js_shl (v div 256) 8 = (v div 256) * 256"
  proof -
    have "ToInt32 (v div 256 * 256) = v div 256 * 256" using hi by (intro ToInt32_small) linarith+
    then show ?thesis by (simp add: js_shl_def th push_bit_eq_mult)
  qed
  have ts: "ToInt32 (v div 256 * 256) = v div 256 * 256" using hi by (intro ToInt32_small) linarith+
  have join: "v div 256 * 256 OR v mod 256 = v"
  proof -
    have "push_bit 8 (drop_bit 8 v) OR take_bit 8 v = push_bit 8 (drop_bit 8 v) + take_bit 8 v"
      by (rule disjunctive_add [symmetric]) (auto simp add: bit_push_bit_iff bit_take_bit_iff)
    also have "\<dots> = v" by (simp add: bits_ident)
    finally show ?thesis by (simp add: push_bit_eq_mult drop_bit_eq_div take_bit_eq_mod)
  qed
  have sign: "js_and 0x8000 v = 0"
  proof -
    have "take_bit 15 v = v" using assms by (simp add: take_bit_int_eq_self)
    then have "bit v 15 = bit (take_bit 15 v) 15" by simp
    then have "\<not> bit v 15" by (simp add: bit_take_bit_iff)
    then have "v AND 2 ^ 15 = 0" using and_exp_eq_0_iff_not_bit [of v 15] by blast
    then have "(32768 :: int) AND v = 0" by (simp add: and.commute)
    moreover have "ToInt32 32768 = 32768" by (simp add: ToInt32_def)
    ultimately show ?thesis by (simp add: js_and_def tv)
  qed
  have "decodeInt16 (v mod 256) (v div 256) = v"
    by (simp add: decodeInt16_def fromInt16_def sh js_or_def ts tl join sign)
  with lsb msb show ?thesis by simp
qed

text \<open>
  C1.  The spec asks that encoding an int16 into its two bytes and decoding them gives the
  value back, for every value from -32768 to 32767.  The encoders do not do that below
  zero: in the branch for negative values they apply \<^verbatim>\<open>&&\<close> where the other branch applies
  \<^verbatim>\<open>&\<close>, so both bytes come out as 0xff, and -2 is decoded as -1.
\<close>

theorem int16_roundtrip_fails_at_minus_two:
  "int16ToLsb (- 2) = 0xff \<and> int16ToMsb (- 2) = 0xff \<and>
   decodeInt16 (int16ToLsb (- 2)) (int16ToMsb (- 2)) = - 1"
  by (simp add: decodeInt16_def int16ToLsb_def int16ToMsb_def fromInt16_def js_ops)

text \<open>
  C7.  The six bytes 10 00 F0 FF 64 00 with the divisor 100 decode to the vector
  (0.16, -0.16, 1.00); the Y pair 0xFFF0 is read as the two's-complement value -16 before
  the division.
\<close>

theorem bufferToVector_example:
  "priv_bufferToVector [0x10, 0x00, 0xF0, 0xFF, 0x64, 0x00] 100 = \<lparr>x = 0.16, y = - 0.16, z = 1.00\<rparr> \<and>
   fromInt16 (js_or (js_shl 0xFF 8) 0xF0) = - 16 \<and> fromInt16 0xFFF0 = - 16"
  by (simp add: priv_bufferToVector_def byteAt_def fromInt16_def js_ops)


section \<open>Register transactions\<close>

text \<open>
  C8.  A block read of \<open>len\<close> bytes: when the bus answers with fewer bytes, the read fails
  with the driver's own message about the byte count, which is no bus error; a buffer is
  delivered only when it has exactly \<open>len\<close> bytes, and then it is the one the bus gave; and
  when the bus reports an error, that error is what the read fails with.
\<close>

theorem readBytes_outcomes:
  "readI2cBlock (i2cObject drv) (Bno055Driver.address drv) register len (chip w) = (r, d) \<Longrightarrow>
   (\<forall>err. r = Inl err \<longrightarrow> fst (priv_readBytes drv register len w) = Inl (BusError err)) \<and>
   (\<forall>buffer. r = Inr buffer \<and> length buffer < len \<longrightarrow>
      fst (priv_readBytes drv register len w) =
        Inl (Text (''Incorrect number of bytes read (expected: '' @ toString10 len
                     @ '', recieved: '' @ toString10 (length buffer) @ '')'')) \<and>
      (\<forall>err. fst (priv_readBytes drv register len w) \<noteq> Inl (BusError err))) \<and>
   (\<forall>buffer. fst (priv_readBytes drv register len w) = Inr buffer \<longrightarrow>
      length buffer = len \<and> r = Inr buffer)"
  by (auto simp add: priv_readBytes_def split: sum.splits if_splits)

theorem readBytes_outcomes_witness:
  "fst (priv_readBytes (driverOn (answering (Inl ''EIO''))) 0x08 6 \<lparr>chip = (), journal = []\<rparr>)
     = Inl (BusError ''EIO'') \<and>
   fst (priv_readBytes (driverOn (answering (Inr [1, 2, 3, 4, 5]))) 0x08 6 \<lparr>chip = (), journal = []\<rparr>)
     = Inl (Text ''Incorrect number of bytes read (expected: 6, recieved: 5)'') \<and>
   fst (priv_readBytes (driverOn (answering (Inr [1, 2, 3, 4, 5, 6]))) 0x08 6 \<lparr>chip = (), journal = []\<rparr>)
     = Inr [1, 2, 3, 4, 5, 6]"
proof -
  let ?w = "\<lparr>chip = (), journal = []\<rparr> :: unit world"
  have bus: "readI2cBlock (i2cObject (driverOn (answering ans)))
               (Bno055Driver.address (driverOn (answering ans))) 0x08 6 (chip ?w) = (ans, ())" for ans
    by (simp add: driverOn_def constructor_def answering_def)
  have digits: "toString10 6 = ''6''" "toString10 (Suc (Suc (Suc (Suc (Suc 0))))) = ''5''"
    by (simp_all add: toString10.simps hexDigit_def)
  have failed: "fst (priv_readBytes (driverOn (answering (Inl ''EIO''))) 0x08 6 ?w) = Inl (BusError ''EIO'')"
    using readBytes_outcomes [OF bus [of "Inl ''EIO''"]] by simp
  have short: "fst (priv_readBytes (driverOn (answering (Inr [1, 2, 3, 4, 5]))) 0x08 6 ?w)
                 = Inl (Text ''Incorrect number of bytes read (expected: 6, recieved: 5)'')"
    using readBytes_outcomes [OF bus [of "Inr [1, 2, 3, 4, 5]"]] digits by simp
  have whole: "fst (priv_readBytes (driverOn (answering (Inr [1, 2, 3, 4, 5, 6]))) 0x08 6 ?w)
                 = Inr [1, 2, 3, 4, 5, 6]"
    by (simp add: priv_readBytes_def driverOn_def constructor_def answering_def)
  from failed short whole show ?thesis by simp
qed


text \<open>
  C10.  The address the constructor settles on is the one given in the options when that
  is not zero, and 0x28 otherwise: a given address of 0 is treated like an absent one.
  Every transaction of the driver goes to that address.
\<close>

theorem constructor_address_default:
  "(let effective = (case Bno055Options.address options of
                       None \<Rightarrow> 0x28
                     | Some a \<Rightarrow> if a \<noteq> 0 then a else 0x28)
    in Bno055Driver.address (constructor options) = effective \<and>
       (\<exists>answer. journal (snd (priv_readByte (constructor options) register w))
                   = journal w @ [ReadByte effective register answer]) \<and>
       (\<exists>answer. journal (snd (priv_readBytes (constructor options) register len w))
                   = journal w @ [ReadI2cBlock effective register len answer]) \<and>
       (\<exists>answer. journal (snd (priv_writeByte (constructor options) register byte w))
                   = journal w @ [WriteByte effective register byte answer]))"
  by (simp add: constructor_def ADDRESS_A_def priv_readByte_def priv_readBytes_def priv_writeByte_def
        Let_def split: option.splits prod.splits)

theorem constructor_address_default_witness:
  "Bno055Driver.address
     (constructor \<lparr>i2c = registerFile, address = Some 0, calibrationData = None, mode = ndof, debug = None\<rparr>) = 0x28 \<and>
   Bno055Driver.address
     (constructor \<lparr>i2c = registerFile, address = Some 0x29, calibrationData = None, mode = ndof, debug = None\<rparr>) = 0x29 \<and>
   Bno055Driver.address
     (constructor \<lparr>i2c = registerFile, address = None, calibrationData = None, mode = ndof, debug = None\<rparr>) = 0x28"
  using constructor_address_default [of "\<lparr>i2c = registerFile, address = Some 0, calibrationData = None, mode = ndof, debug = None\<rparr>"]
        constructor_address_default [of "\<lparr>i2c = registerFile, address = Some 0x29, calibrationData = None, mode = ndof, debug = None\<rparr>"]
        constructor_address_default [of "\<lparr>i2c = registerFile, address = None, calibrationData = None, mode = ndof, debug = None\<rparr>"]
  by (simp add: Let_def)


section \<open>Mode switches\<close>

text \<open>
  C3.  The spec has every mode switch write the mode register and then wait 30 ms.  The
  write is there, and \<^verbatim>\<open>_setMode\<close> asks for 30 ms, but \<^verbatim>\<open>_delay\<close> does not look at its
  argument and always sets its timer to 1000 ms: both the switch to config mode and the
  switch to an operating mode wait 1000 ms.
\<close>

theorem setMode_waits_1000_ms:
  "priv_setMode (driverOn registerFile) config \<lparr>chip = (\<lambda>r. 0), journal = []\<rparr>
     = Some (Inr (), \<lparr>chip = (\<lambda>r. 0), journal = [WriteByte 0x28 0x3D 0x00 None, Timer 1000]\<rparr>) \<and>
   priv_setMode (driverOn registerFile) (operating ndof) \<lparr>chip = (\<lambda>r. 0), journal = []\<rparr>
     = Some (Inr (), \<lparr>chip = (\<lambda>r. 0)(0x3D := 0x0C), journal = [WriteByte 0x28 0x3D 0x0C None, Timer 1000]\<rparr>)"
  by (simp add: priv_setMode_def once_def priv_writeByte_def priv_delay_def timerElapsed_def
        driverOn_def constructor_def registerFile_def constants fun_upd_idem)


section \<open>The self test\<close>

text \<open>The message of a failed self test determines the byte it names.\<close>

lemma selfTest_message_inj:
  "inj (\<lambda>byte :: 8 word. Text (''Self test failed, got 0x'' @ toString16 (unat byte) @ ''.''))"
proof (rule injI)
  fix a b :: "8 word"
  assume "Text (''Self test failed, got 0x'' @ toString16 (unat a) @ ''.'')
            = Text (''Self test failed, got 0x'' @ toString16 (unat b) @ ''.'')"
  then have "toString16 (unat a) = toString16 (unat b)" by simp
  then have "unat a = unat b" by (rule toString16_inj)
  then show "a = b" by (simp add: word_unat_eq_iff)
qed

text \<open>
  C4.  When the read of SELFTEST_RESULT yields a byte, the self-test step completes if
  the low four bits of the byte are all set, and otherwise fails with the message that
  names the byte in hexadecimal; inside the pre-calibration phase that failure is the
  failure of the phase.  A byte of 0x0F passes and a byte of 0x07 fails.
  Different bytes give different messages, so the failure carries the byte.
\<close>

theorem confirmSelfTest_gate:
  "readByte (i2cObject drv) (Bno055Driver.address drv) SELFTEST_RESULT (chip w) = (Inr byte, d) \<Longrightarrow>
   (let w' = \<lparr>chip = d, journal = journal w @ [ReadByte (Bno055Driver.address drv) SELFTEST_RESULT (Inr byte)]\<rparr>;
        failure = Inl (Text (''Self test failed, got 0x'' @ toString16 (unat byte) @ ''.''))
    in
      (byte AND 0xF = 0xF \<longrightarrow> priv_confirmSelfTest drv w = Some (Inr (), w')) \<and>
      (byte AND 0xF \<noteq> 0xF \<longrightarrow> priv_confirmSelfTest drv w = Some (failure, w')) \<and>
      (byte AND 0xF \<noteq> 0xF \<and> priv_confirmBoot drv w0 = Some (Inr (), w1) \<and>
         priv_ensurePage drv 0 w1 = Some (Inr (), w) \<longrightarrow>
         priv_initializePreCalibration drv w0 = Some (failure, w')) \<and>
      (byte = 0x0F \<longrightarrow> priv_confirmSelfTest drv w = Some (Inr (), w')) \<and>
      (byte = 0x07 \<longrightarrow> priv_confirmSelfTest drv w = Some (Inl (Text ''Self test failed, got 0x7.''), w'))) \<and>
   inj (\<lambda>observed :: 8 word. Text (''Self test failed, got 0x'' @ toString16 (unat observed) @ ''.''))"
  (is "_ \<Longrightarrow> ?gate \<and> ?carried")
proof -
  assume rd: "readByte (i2cObject drv) (Bno055Driver.address drv) SELFTEST_RESULT (chip w) = (Inr byte, d)"
  define w' where "w' = \<lparr>chip = d, journal = journal w @ [ReadByte (Bno055Driver.address drv) SELFTEST_RESULT (Inr byte)]\<rparr>"
  define failure :: "thrown + unit"
    where "failure = Inl (Text (''Self test failed, got 0x'' @ toString16 (unat byte) @ ''.''))"
  have gate: "(js_and (uint byte) 0xF = 0xF) = (byte AND 0xF = 0xF)"
    using js_and_byte [of 15 byte] by simp
  have run: "priv_confirmSelfTest drv w = (if byte AND 0xF = 0xF then Some (Inr (), w') else Some (failure, w'))"
    using rd gate
    by (simp add: priv_confirmSelfTest_def mergeMap_def once_def priv_readByte_def
        emptyObservable_def throwObservable_def w'_def failure_def)
  have seven: "toString16 (unat (7 :: 8 word)) = ''7''"
    by (simp add: toString16.simps hexDigit_def)
  have init: "priv_initializePreCalibration drv w0 = Some (failure, w')"
    if "byte AND 0xF \<noteq> 0xF" "priv_confirmBoot drv w0 = Some (Inr (), w1)"
       "priv_ensurePage drv 0 w1 = Some (Inr (), w)"
    using that run by (simp add: priv_initializePreCalibration_def failure_def)
  have ?gate
    unfolding Let_def w'_def [symmetric] failure_def [symmetric]
    using run seven init by (auto simp add: failure_def)
  moreover have ?carried by (rule selfTest_message_inj)
  ultimately show "?gate \<and> ?carried" ..
qed

theorem confirmSelfTest_gate_witness:
  "priv_confirmSelfTest (driverOn registerFile) \<lparr>chip = (\<lambda>r. 0x0F), journal = []\<rparr>
     = Some (Inr (), \<lparr>chip = (\<lambda>r. 0x0F), journal = [ReadByte 0x28 0x36 (Inr 0x0F)]\<rparr>) \<and>
   priv_confirmSelfTest (driverOn registerFile) \<lparr>chip = (\<lambda>r. 0x07), journal = []\<rparr>
     = Some (Inl (Text ''Self test failed, got 0x7.''),
             \<lparr>chip = (\<lambda>r. 0x07), journal = [ReadByte 0x28 0x36 (Inr 0x07)]\<rparr>) \<and>
   priv_initializePreCalibration (driverOn registerFile)
       \<lparr>chip = (\<lambda>r. 0)(0x00 := 0xA0, 0x36 := 0x07), journal = []\<rparr>
     = Some (Inl (Text ''Self test failed, got 0x7.''),
             \<lparr>chip = (\<lambda>r. 0)(0x00 := 0xA0, 0x36 := 0x07),
              journal = [ReadByte 0x28 0x00 (Inr 0xA0), ReadByte 0x28 0x07 (Inr 0x00),
                         ReadByte 0x28 0x36 (Inr 0x07)]\<rparr>)"
proof -
  let ?drv = "driverOn registerFile"
  have rd: "readByte (i2cObject ?drv) (Bno055Driver.address ?drv) SELFTEST_RESULT (chip \<lparr>chip = c, journal = j\<rparr>)
              = (Inr (c 0x36), c)" for c :: "int \<Rightarrow> 8 word" and j
    by (simp add: driverOn_def constructor_def registerFile_def constants)
  have addr: "Bno055Driver.address ?drv = 0x28"
    by (simp add: driverOn_def constructor_def constants)
  let ?c = "(\<lambda>r. 0)(0x00 := 0xA0, 0x36 := 0x07) :: int \<Rightarrow> 8 word"
  let ?w1 = "\<lparr>chip = ?c, journal = [ReadByte 0x28 0x00 (Inr 0xA0)]\<rparr>"
  let ?w2 = "\<lparr>chip = ?c, journal = [ReadByte 0x28 0x00 (Inr 0xA0), ReadByte 0x28 0x07 (Inr 0x00)]\<rparr>"
  have boot: "priv_confirmBoot ?drv \<lparr>chip = ?c, journal = []\<rparr> = Some (Inr (), ?w1)"
    by (simp add: priv_confirmBoot_def subscribe_def mergeObservable.simps mapAction_def
          priv_readByte_def driverOn_def constructor_def registerFile_def constants)
  have page: "priv_ensurePage ?drv 0 ?w1 = Some (Inr (), ?w2)"
    by (simp add: priv_ensurePage_def mergeMap_def once_def emptyObservable_def
          priv_readByte_def driverOn_def constructor_def registerFile_def constants)
  have seven: "toString16 7 = ''7''"
    by (simp add: toString16.simps hexDigit_def)
  have "7 AND 15 \<noteq> (15 :: 8 word)" by simp
  with confirmSelfTest_gate [OF rd [of "\<lambda>r. 0x0F" "[]"], of "\<lparr>chip = (\<lambda>r. 0x0F), journal = []\<rparr>" "\<lparr>chip = (\<lambda>r. 0x0F), journal = []\<rparr>"]
       confirmSelfTest_gate [OF rd [of "\<lambda>r. 0x07" "[]"], of "\<lparr>chip = (\<lambda>r. 0x0F), journal = []\<rparr>" "\<lparr>chip = (\<lambda>r. 0x0F), journal = []\<rparr>"]
       confirmSelfTest_gate [OF rd [of ?c "journal ?w2"], of "\<lparr>chip = ?c, journal = []\<rparr>" ?w1]
       boot page seven
  show ?thesis
    by (simp add: Let_def addr constants)
qed


section \<open>Reading the calibration data back\<close>

text \<open>
  The five reads of \<^verbatim>\<open>_readCalibration\<close> and where they go, on every bus; and the accessor
  delivers what \<^verbatim>\<open>_readCalibration\<close> reads once the pre-calibration phase and the monitor
  have completed.
\<close>

lemma snd_mapAction: "snd (mapAction f a w) = snd (a w)"
  by (simp add: mapAction_def split: prod.splits sum.splits)

lemma readBytes_journal:
  "\<exists>answer. journal (snd (priv_readBytes drv register len w))
              = journal w @ [ReadI2cBlock (Bno055Driver.address drv) register len answer]"
  by (simp add: priv_readBytes_def split: prod.splits)

lemma readVector_journal:
  assumes "priv_readVector drv register divisor debugName w = (res, w')"
  shows "\<exists>answer. journal w' = journal w @ [ReadI2cBlock (Bno055Driver.address drv) register 6 answer]"
proof -
  have "snd (priv_readVector drv register divisor debugName w) = snd (priv_readBytes drv register 6 w)"
    unfolding priv_readVector_def by (rule snd_mapAction)
  with assms have "w' = snd (priv_readBytes drv register 6 w)" by simp
  then show ?thesis by (simp only: readBytes_journal)
qed

lemma readNumber_journal:
  assumes "priv_readNumber drv register debugName w = (res, w')"
  shows "\<exists>answer. journal w' = journal w @ [ReadI2cBlock (Bno055Driver.address drv) register 2 answer]"
proof -
  have "snd (priv_readNumber drv register debugName w) = snd (priv_readBytes drv register 2 w)"
    unfolding priv_readNumber_def by (rule snd_mapAction)
  with assms have "w' = snd (priv_readBytes drv register 2 w)" by simp
  then show ?thesis by (simp only: readBytes_journal)
qed

lemma readCalibration_journal:
  "\<exists>a1 a2 a3 a4 a5.
     journal (snd (priv_readCalibration drv w)) =
       journal w @ [ReadI2cBlock (Bno055Driver.address drv) 0x55 6 a1,
                    ReadI2cBlock (Bno055Driver.address drv) 0x67 2 a2,
                    ReadI2cBlock (Bno055Driver.address drv) 0x55 6 a3,
                    ReadI2cBlock (Bno055Driver.address drv) 0x55 6 a4,
                    ReadI2cBlock (Bno055Driver.address drv) 0x69 2 a5]"
proof -
  obtain r1 w1 where s1: "priv_readVector drv ACCEL_OFFSET_START 1 ''accelerometer offset'' w = (r1, w1)"
    by (cases "priv_readVector drv ACCEL_OFFSET_START 1 ''accelerometer offset'' w")
  obtain r2 w2 where s2: "priv_readNumber drv ACCEL_RADIUS_LSB ''accelerometer radius'' w1 = (r2, w2)"
    by (cases "priv_readNumber drv ACCEL_RADIUS_LSB ''accelerometer radius'' w1")
  obtain r3 w3 where s3: "priv_readVector drv GYRO_OFFSET_START 1 ''gyroscope offset'' w2 = (r3, w3)"
    by (cases "priv_readVector drv GYRO_OFFSET_START 1 ''gyroscope offset'' w2")
  obtain r4 w4 where s4: "priv_readVector drv MAG_OFFSET_START 1 ''magnometer offset'' w3 = (r4, w4)"
    by (cases "priv_readVector drv MAG_OFFSET_START 1 ''magnometer offset'' w3")
  obtain r5 w5 where s5: "priv_readNumber drv MAG_RADIUS_LSB ''acceleration radius'' w4 = (r5, w5)"
    by (cases "priv_readNumber drv MAG_RADIUS_LSB ''acceleration radius'' w4")
  have final: "snd (priv_readCalibration drv w) = w5"
    by (simp add: priv_readCalibration_def s1 s2 s3 s4 s5)
  from readVector_journal [OF s1] obtain a1 where
    j1: "journal w1 = journal w @ [ReadI2cBlock (Bno055Driver.address drv) ACCEL_OFFSET_START 6 a1]" ..
  from readNumber_journal [OF s2] obtain a2 where
    j2: "journal w2 = journal w1 @ [ReadI2cBlock (Bno055Driver.address drv) ACCEL_RADIUS_LSB 2 a2]" ..
  from readVector_journal [OF s3] obtain a3 where
    j3: "journal w3 = journal w2 @ [ReadI2cBlock (Bno055Driver.address drv) GYRO_OFFSET_START 6 a3]" ..
  from readVector_journal [OF s4] obtain a4 where
    j4: "journal w4 = journal w3 @ [ReadI2cBlock (Bno055Driver.address drv) MAG_OFFSET_START 6 a4]" ..
  from readNumber_journal [OF s5] obtain a5 where
    j5: "journal w5 = journal w4 @ [ReadI2cBlock (Bno055Driver.address drv) MAG_RADIUS_LSB 2 a5]" ..
  have "journal (snd (priv_readCalibration drv w)) =
       journal w @ [ReadI2cBlock (Bno055Driver.address drv) 0x55 6 a1,
                    ReadI2cBlock (Bno055Driver.address drv) 0x67 2 a2,
                    ReadI2cBlock (Bno055Driver.address drv) 0x55 6 a3,
                    ReadI2cBlock (Bno055Driver.address drv) 0x55 6 a4,
                    ReadI2cBlock (Bno055Driver.address drv) 0x69 2 a5]"
    unfolding final j5 j4 j3 j2 j1
    by (simp add: ACCEL_OFFSET_START_def ACCEL_RADIUS_LSB_def GYRO_OFFSET_START_def
          MAG_OFFSET_START_def MAG_RADIUS_LSB_def)
  then show ?thesis by blast
qed

lemma getCalibrationData_value:
  "getCalibrationData drv w = Some (Inr cal, w') \<Longrightarrow>
   \<exists>w1 w2. preCalibrationInitializationStream drv w = Some (Inr (), w1) \<and>
           priv_awaitCalibration drv w1 = Some (Inr (), w2) \<and>
           priv_readCalibration drv w2 = (Inr cal, w')"
  by (auto simp add: getCalibrationData_def mergeMap_def once_def
        split: option.splits sum.splits prod.splits)

text \<open>
  C2.  The spec wants the three offset vectors read at 0x55 (accelerometer), 0x5B
  (magnetometer) and 0x61 (gyroscope).  \<^verbatim>\<open>_readCalibration\<close> issues its five reads and
  yields one value, but it takes the start addresses from the table, where
  \<open>MAG_OFFSET_START\<close> and \<open>GYRO_OFFSET_START\<close> are both 0x55: on every bus the three
  6-byte reads all go to 0x55, and on a chip whose every register holds its own address
  the gyroscope and magnetometer offsets come back as the accelerometer's.
\<close>

theorem readCalibration_reads_every_offset_at_0x55:
  "(\<exists>a1 a2 a3 a4 a5.
      journal (snd (priv_readCalibration drv w)) =
        journal w @ [ReadI2cBlock (Bno055Driver.address drv) 0x55 6 a1,
                     ReadI2cBlock (Bno055Driver.address drv) 0x67 2 a2,
                     ReadI2cBlock (Bno055Driver.address drv) 0x55 6 a3,
                     ReadI2cBlock (Bno055Driver.address drv) 0x55 6 a4,
                     ReadI2cBlock (Bno055Driver.address drv) 0x69 2 a5]) \<and>
   priv_readCalibration (driverOn registerFile) \<lparr>chip = (\<lambda>r. word_of_int r), journal = []\<rparr>
   = (Inr \<lparr>accelerometerOffset = \<lparr>x = 0x5655, y = 0x5857, z = 0x5A59\<rparr>,
           accelerometerRadius = 0x6867,
           gyroscopeOffset = \<lparr>x = 0x5655, y = 0x5857, z = 0x5A59\<rparr>,
           magnetometerOffset = \<lparr>x = 0x5655, y = 0x5857, z = 0x5A59\<rparr>,
           magnetometerRadius = 0x6A69\<rparr>,
      \<lparr>chip = (\<lambda>r. word_of_int r),
       journal = [ReadI2cBlock 0x28 0x55 6 (Inr [0x55, 0x56, 0x57, 0x58, 0x59, 0x5A]),
                  ReadI2cBlock 0x28 0x67 2 (Inr [0x67, 0x68]),
                  ReadI2cBlock 0x28 0x55 6 (Inr [0x55, 0x56, 0x57, 0x58, 0x59, 0x5A]),
                  ReadI2cBlock 0x28 0x55 6 (Inr [0x55, 0x56, 0x57, 0x58, 0x59, 0x5A]),
                  ReadI2cBlock 0x28 0x69 2 (Inr [0x69, 0x6A])]\<rparr>)"
proof (rule conjI)
  show "\<exists>a1 a2 a3 a4 a5.
      journal (snd (priv_readCalibration drv w)) =
        journal w @ [ReadI2cBlock (Bno055Driver.address drv) 0x55 6 a1,
                     ReadI2cBlock (Bno055Driver.address drv) 0x67 2 a2,
                     ReadI2cBlock (Bno055Driver.address drv) 0x55 6 a3,
                     ReadI2cBlock (Bno055Driver.address drv) 0x55 6 a4,
                     ReadI2cBlock (Bno055Driver.address drv) 0x69 2 a5]"
    by (rule readCalibration_journal)
next
  show "priv_readCalibration (driverOn registerFile) \<lparr>chip = (\<lambda>r. word_of_int r), journal = []\<rparr>
   = (Inr \<lparr>accelerometerOffset = \<lparr>x = 0x5655, y = 0x5857, z = 0x5A59\<rparr>,
           accelerometerRadius = 0x6867,
           gyroscopeOffset = \<lparr>x = 0x5655, y = 0x5857, z = 0x5A59\<rparr>,
           magnetometerOffset = \<lparr>x = 0x5655, y = 0x5857, z = 0x5A59\<rparr>,
           magnetometerRadius = 0x6A69\<rparr>,
      \<lparr>chip = (\<lambda>r. word_of_int r),
       journal = [ReadI2cBlock 0x28 0x55 6 (Inr [0x55, 0x56, 0x57, 0x58, 0x59, 0x5A]),
                  ReadI2cBlock 0x28 0x67 2 (Inr [0x67, 0x68]),
                  ReadI2cBlock 0x28 0x55 6 (Inr [0x55, 0x56, 0x57, 0x58, 0x59, 0x5A]),
                  ReadI2cBlock 0x28 0x55 6 (Inr [0x55, 0x56, 0x57, 0x58, 0x59, 0x5A]),
                  ReadI2cBlock 0x28 0x69 2 (Inr [0x69, 0x6A])]\<rparr>)"
    by (simp add: priv_readCalibration_def priv_readVector_def priv_readNumber_def mapAction_def
          priv_readBytes_def driverOn_def constructor_def registerFile_def constants zip2_def
          priv_bufferToVector_def byteAt_def fromInt16_def js_ops upt_rec)
qed

section \<open>The calibration monitor\<close>










lemmas run_defs =
  priv_awaitCalibration_def priv_setMode_def once_def priv_writeByte_def priv_delay_def
  timerElapsed_def priv_awaitCalibrationPart_def mapAction_def priv_readByte_def
  driverOn_def constructor_def constants



















section \<open>Calibration data: written when given, awaited when not\<close>

text \<open>
  A sequence of writes that completes leaves exactly its acknowledged writes in the
  journal, and it completes on a bus that acknowledges every write.  The writes of
  \<^verbatim>\<open>_writeCalibrationData\<close> go to the registers the specification lists, in its order, with
  the bytes \<open>int16ToLsb\<close> and \<open>int16ToMsb\<close> make of each field; when every field lies
  between 0 and 32767 these are the field's low and high byte, and the writes are the
  specification's.
\<close>

lemma concat_writes_journal:
  "concatObservable (map (\<lambda>(r, v). once (priv_writeByte drv r v)) rvs) w = Some (Inr (), w') \<Longrightarrow>
   journal w' = journal w @ map (\<lambda>(r, v). WriteByte (Bno055Driver.address drv) r v None) rvs"
proof (induction rvs arbitrary: w)
  case Nil
  then show ?case by simp
next
  case (Cons rv rvs)
  obtain r v where rv: "rv = (r, v)" by (cases rv)
  obtain res w1 where pw: "priv_writeByte drv r v w = (res, w1)"
    by (cases "priv_writeByte drv r v w")
  then have first: "once (priv_writeByte drv r v) w = Some (res, w1)"
    by (simp add: once_def)
  from Cons.prems first have
    step: "priv_writeByte drv r v w = (Inr (), w1)" and
    rest: "concatObservable (map (\<lambda>(r, v). once (priv_writeByte drv r v)) rvs) w1 = Some (Inr (), w')"
    using pw by (auto simp add: rv split: sum.splits)
  from step have "journal w1 = journal w @ [WriteByte (Bno055Driver.address drv) r v None]"
    by (auto simp add: priv_writeByte_def split: prod.splits option.splits)
  with Cons.IH [OF rest] show ?case by (simp add: rv)
qed

lemma concat_writes_acked:
  "\<forall>r v c. fst (writeByte (i2cObject drv) (Bno055Driver.address drv) r v c) = None \<Longrightarrow>
   \<exists>w'. concatObservable (map (\<lambda>(r, v). once (priv_writeByte drv r v)) rvs) w = Some (Inr (), w')"
proof (induction rvs arbitrary: w)
  case Nil
  then show ?case by simp
next
  case (Cons rv rvs)
  obtain r v where rv: "rv = (r, v)" by (cases rv)
  obtain a c where ans: "writeByte (i2cObject drv) (Bno055Driver.address drv) r v (chip w) = (a, c)"
    by (cases "writeByte (i2cObject drv) (Bno055Driver.address drv) r v (chip w)")
  with Cons.prems have "a = None" by (metis fst_conv)
  with ans have "\<exists>w1. priv_writeByte drv r v w = (Inr (), w1)"
    by (simp add: priv_writeByte_def)
  then obtain w1 where step: "priv_writeByte drv r v w = (Inr (), w1)" ..
  from Cons.IH [OF Cons.prems, of w1] step show ?case by (simp add: rv once_def)
qed

lemma writeCalibrationData_writes:
  "priv_writeCalibrationData drv cal =
     concatObservable (map (\<lambda>(r, v). once (priv_writeByte drv r v))
       (concat (map (\<lambda>(lsbRegister, field).
                       [(lsbRegister, int16ToLsb field), (lsbRegister + 1, int16ToMsb field)])
                    (spec_calibrationFields cal))))"
  by (simp add: priv_writeCalibrationData_def spec_calibrationFields_def constants)

lemma writeCalibrationData_journal:
  "priv_writeCalibrationData drv cal w = Some (Inr (), w') \<Longrightarrow>
   journal w' = journal w @
     concat (map (\<lambda>(lsbRegister, field).
                    [WriteByte (Bno055Driver.address drv) lsbRegister (int16ToLsb field) None,
                     WriteByte (Bno055Driver.address drv) (lsbRegister + 1) (int16ToMsb field) None])
                 (spec_calibrationFields cal))"
  unfolding writeCalibrationData_writes
  by (drule concat_writes_journal) (simp add: spec_calibrationFields_def)

lemma writes_from_zero:
  assumes "\<forall>(lsbRegister, field)\<in>set pairs. 0 \<le> field \<and> field \<le> 32767"
  shows "concat (map (\<lambda>(lsbRegister, field).
                    [WriteByte a lsbRegister (int16ToLsb field) None,
                     WriteByte a (lsbRegister + 1) (int16ToMsb field) None]) pairs)
       = concat (map (\<lambda>(lsbRegister, field).
                    [WriteByte a lsbRegister (field mod 256) None,
                     WriteByte a (lsbRegister + 1) (field div 256 mod 256) None]) pairs)"
  using assms
proof (induction pairs)
  case Nil
  show ?case by simp
next
  case (Cons rf pairs)
  obtain r field where rf: "rf = (r, field)" by (cases rf)
  with Cons.prems have range: "0 \<le> field" "field \<le> 32767" by auto
  from int16_roundtrip_from_zero [OF range]
  have low: "int16ToLsb field = field mod 256" and high: "int16ToMsb field = field div 256"
    by simp_all
  from range have "field div 256 mod 256 = field div 256" by auto
  with low high Cons show ?case by (simp add: rf)
qed

lemma writeCalibrationData_from_zero:
  assumes acked: "\<forall>r v c. fst (writeByte (i2cObject drv) (Bno055Driver.address drv) r v c) = None"
    and range: "\<forall>(lsbRegister, field)\<in>set (spec_calibrationFields cal). 0 \<le> field \<and> field \<le> 32767"
  shows "\<exists>w'. priv_writeCalibrationData drv cal w = Some (Inr (), w') \<and>
              journal w' = journal w @ spec_calibrationWrites (Bno055Driver.address drv) cal"
proof -
  from concat_writes_acked [OF acked] obtain w' where
    wrote: "priv_writeCalibrationData drv cal w = Some (Inr (), w')"
    unfolding writeCalibrationData_writes by blast
  from writeCalibrationData_journal [OF wrote] writes_from_zero [OF range]
  have "journal w' = journal w @ spec_calibrationWrites (Bno055Driver.address drv) cal"
    by (simp add: spec_calibrationWrites_def)
  with wrote show ?thesis by blast
qed

text \<open>
  C9.  The step does issue 22 single-byte writes into the registers 0x55 to 0x6A, for each
  field to its low-byte register and then to its high-byte register, in the order the
  specification gives, and without calibration data the initialization switches to
  ndof_fmc_off and lets the monitor complete before the final mode switch.  But the
  bytes written are not the low and the high byte of every field: with the accelerometer
  offset X = -2 the code writes 0xFF to 0x55 and 0xFF to 0x56, where the low byte is 0xFE
  and the high byte 0xFF.  The encoders \<open>int16ToLsb\<close> and \<open>int16ToMsb\<close> give 0xFF for
  every negative field (see C1).  The four runs below are: the step with this calibration
  data, the writes the specification asks for, the whole initialization with the data,
  and the whole initialization without data, each on a chip that is a plain register
  file.
\<close>

theorem writeCalibrationData_negative_field:
  "map_option (\<lambda>(r, w'). (r, journal w'))
     (priv_setOrAwaitCalibrationData (driverOn registerFile)
        (Some \<lparr>accelerometerOffset = \<lparr>x = - 2, y = 2, z = 3\<rparr>, accelerometerRadius = 1000,
              gyroscopeOffset = \<lparr>x = 4, y = 5, z = 6\<rparr>,
              magnetometerOffset = \<lparr>x = 7, y = 8, z = 9\<rparr>, magnetometerRadius = 480\<rparr>)
        \<lparr>chip = (\<lambda>r. 0), journal = []\<rparr>)
   = Some (Inr (),
        [WriteByte 0x28 0x55 0xFF None, WriteByte 0x28 0x56 0xFF None,
         WriteByte 0x28 0x57 2 None, WriteByte 0x28 0x58 0 None,
         WriteByte 0x28 0x59 3 None, WriteByte 0x28 0x5A 0 None,
         WriteByte 0x28 0x67 0xE8 None, WriteByte 0x28 0x68 0x03 None,
         WriteByte 0x28 0x61 4 None, WriteByte 0x28 0x62 0 None,
         WriteByte 0x28 0x63 5 None, WriteByte 0x28 0x64 0 None,
         WriteByte 0x28 0x65 6 None, WriteByte 0x28 0x66 0 None,
         WriteByte 0x28 0x5B 7 None, WriteByte 0x28 0x5C 0 None,
         WriteByte 0x28 0x5D 8 None, WriteByte 0x28 0x5E 0 None,
         WriteByte 0x28 0x5F 9 None, WriteByte 0x28 0x60 0 None,
         WriteByte 0x28 0x69 0xE0 None, WriteByte 0x28 0x6A 0x01 None]) \<and>
   spec_calibrationWrites 0x28
        \<lparr>accelerometerOffset = \<lparr>x = - 2, y = 2, z = 3\<rparr>, accelerometerRadius = 1000,
              gyroscopeOffset = \<lparr>x = 4, y = 5, z = 6\<rparr>,
              magnetometerOffset = \<lparr>x = 7, y = 8, z = 9\<rparr>, magnetometerRadius = 480\<rparr>
   = [WriteByte 0x28 0x55 0xFE None, WriteByte 0x28 0x56 0xFF None,
         WriteByte 0x28 0x57 2 None, WriteByte 0x28 0x58 0 None,
         WriteByte 0x28 0x59 3 None, WriteByte 0x28 0x5A 0 None,
         WriteByte 0x28 0x67 0xE8 None, WriteByte 0x28 0x68 0x03 None,
         WriteByte 0x28 0x61 4 None, WriteByte 0x28 0x62 0 None,
         WriteByte 0x28 0x63 5 None, WriteByte 0x28 0x64 0 None,
         WriteByte 0x28 0x65 6 None, WriteByte 0x28 0x66 0 None,
         WriteByte 0x28 0x5B 7 None, WriteByte 0x28 0x5C 0 None,
         WriteByte 0x28 0x5D 8 None, WriteByte 0x28 0x5E 0 None,
         WriteByte 0x28 0x5F 9 None, WriteByte 0x28 0x60 0 None,
         WriteByte 0x28 0x69 0xE0 None, WriteByte 0x28 0x6A 0x01 None] \<and>
   map_option (\<lambda>(r, w'). (r, journal w'))
     (priv_initialize (driverOn registerFile) ndof
        (Some \<lparr>accelerometerOffset = \<lparr>x = - 2, y = 2, z = 3\<rparr>, accelerometerRadius = 1000,
              gyroscopeOffset = \<lparr>x = 4, y = 5, z = 6\<rparr>,
              magnetometerOffset = \<lparr>x = 7, y = 8, z = 9\<rparr>, magnetometerRadius = 480\<rparr>)
        \<lparr>chip = (\<lambda>r. 0)(0x00 := 0xA0, 0x36 := 0x0F, 0x35 := 0xFF), journal = []\<rparr>)
   = Some (Inr (),
        [ReadByte 0x28 0x00 (Inr 0xA0), ReadByte 0x28 0x07 (Inr 0x00),
         ReadByte 0x28 0x36 (Inr 0x0F),
         WriteByte 0x28 0x3D 0x00 None, Timer 1000,
         WriteByte 0x28 0x3F 0x20 None, Timer 1000,
         ReadByte 0x28 0x00 (Inr 0xA0),
         WriteByte 0x28 0x55 0xFF None, WriteByte 0x28 0x56 0xFF None,
         WriteByte 0x28 0x57 2 None, WriteByte 0x28 0x58 0 None,
         WriteByte 0x28 0x59 3 None, WriteByte 0x28 0x5A 0 None,
         WriteByte 0x28 0x67 0xE8 None, WriteByte 0x28 0x68 0x03 None,
         WriteByte 0x28 0x61 4 None, WriteByte 0x28 0x62 0 None,
         WriteByte 0x28 0x63 5 None, WriteByte 0x28 0x64 0 None,
         WriteByte 0x28 0x65 6 None, WriteByte 0x28 0x66 0 None,
         WriteByte 0x28 0x5B 7 None, WriteByte 0x28 0x5C 0 None,
         WriteByte 0x28 0x5D 8 None, WriteByte 0x28 0x5E 0 None,
         WriteByte 0x28 0x5F 9 None, WriteByte 0x28 0x60 0 None,
         WriteByte 0x28 0x69 0xE0 None, WriteByte 0x28 0x6A 0x01 None,
         WriteByte 0x28 0x3D 0x0C None, Timer 1000]) \<and>
   map_option (\<lambda>(r, w'). (r, journal w'))
     (priv_initialize (driverOn registerFile) ndof None
        \<lparr>chip = (\<lambda>r. 0)(0x00 := 0xA0, 0x36 := 0x0F, 0x35 := 0xFF), journal = []\<rparr>)
   = Some (Inr (),
        [ReadByte 0x28 0x00 (Inr 0xA0), ReadByte 0x28 0x07 (Inr 0x00),
         ReadByte 0x28 0x36 (Inr 0x0F),
         WriteByte 0x28 0x3D 0x00 None, Timer 1000,
         WriteByte 0x28 0x3F 0x20 None, Timer 1000,
         ReadByte 0x28 0x00 (Inr 0xA0),
         WriteByte 0x28 0x3D 0x0B None, Timer 1000,
         ReadByte 0x28 0x35 (Inr 0xFF), ReadByte 0x28 0x35 (Inr 0xFF),
         ReadByte 0x28 0x35 (Inr 0xFF), ReadByte 0x28 0x35 (Inr 0xFF),
         WriteByte 0x28 0x3D 0x0C None, Timer 1000])"
proof (intro conjI)
  show "map_option (\<lambda>(r, w'). (r, journal w'))
     (priv_setOrAwaitCalibrationData (driverOn registerFile)
        (Some \<lparr>accelerometerOffset = \<lparr>x = - 2, y = 2, z = 3\<rparr>, accelerometerRadius = 1000,
              gyroscopeOffset = \<lparr>x = 4, y = 5, z = 6\<rparr>,
              magnetometerOffset = \<lparr>x = 7, y = 8, z = 9\<rparr>, magnetometerRadius = 480\<rparr>)
        \<lparr>chip = (\<lambda>r. 0), journal = []\<rparr>)
   = Some (Inr (),
        [WriteByte 0x28 0x55 0xFF None, WriteByte 0x28 0x56 0xFF None,
         WriteByte 0x28 0x57 2 None, WriteByte 0x28 0x58 0 None,
         WriteByte 0x28 0x59 3 None, WriteByte 0x28 0x5A 0 None,
         WriteByte 0x28 0x67 0xE8 None, WriteByte 0x28 0x68 0x03 None,
         WriteByte 0x28 0x61 4 None, WriteByte 0x28 0x62 0 None,
         WriteByte 0x28 0x63 5 None, WriteByte 0x28 0x64 0 None,
         WriteByte 0x28 0x65 6 None, WriteByte 0x28 0x66 0 None,
         WriteByte 0x28 0x5B 7 None, WriteByte 0x28 0x5C 0 None,
         WriteByte 0x28 0x5D 8 None, WriteByte 0x28 0x5E 0 None,
         WriteByte 0x28 0x5F 9 None, WriteByte 0x28 0x60 0 None,
         WriteByte 0x28 0x69 0xE0 None, WriteByte 0x28 0x6A 0x01 None])"
    by (simp add: priv_setOrAwaitCalibrationData_def priv_writeCalibrationData_def once_def
          priv_writeByte_def driverOn_def constructor_def registerFile_def constants
          int16ToLsb_def int16ToMsb_def js_ops)
next
  show "spec_calibrationWrites 0x28
        \<lparr>accelerometerOffset = \<lparr>x = - 2, y = 2, z = 3\<rparr>, accelerometerRadius = 1000,
              gyroscopeOffset = \<lparr>x = 4, y = 5, z = 6\<rparr>,
              magnetometerOffset = \<lparr>x = 7, y = 8, z = 9\<rparr>, magnetometerRadius = 480\<rparr>
   = [WriteByte 0x28 0x55 0xFE None, WriteByte 0x28 0x56 0xFF None,
         WriteByte 0x28 0x57 2 None, WriteByte 0x28 0x58 0 None,
         WriteByte 0x28 0x59 3 None, WriteByte 0x28 0x5A 0 None,
         WriteByte 0x28 0x67 0xE8 None, WriteByte 0x28 0x68 0x03 None,
         WriteByte 0x28 0x61 4 None, WriteByte 0x28 0x62 0 None,
         WriteByte 0x28 0x63 5 None, WriteByte 0x28 0x64 0 None,
         WriteByte 0x28 0x65 6 None, WriteByte 0x28 0x66 0 None,
         WriteByte 0x28 0x5B 7 None, WriteByte 0x28 0x5C 0 None,
         WriteByte 0x28 0x5D 8 None, WriteByte 0x28 0x5E 0 None,
         WriteByte 0x28 0x5F 9 None, WriteByte 0x28 0x60 0 None,
         WriteByte 0x28 0x69 0xE0 None, WriteByte 0x28 0x6A 0x01 None]"
    by (simp add: spec_calibrationWrites_def spec_calibrationFields_def)
next
  show "map_option (\<lambda>(r, w'). (r, journal w'))
     (priv_initialize (driverOn registerFile) ndof
        (Some \<lparr>accelerometerOffset = \<lparr>x = - 2, y = 2, z = 3\<rparr>, accelerometerRadius = 1000,
              gyroscopeOffset = \<lparr>x = 4, y = 5, z = 6\<rparr>,
              magnetometerOffset = \<lparr>x = 7, y = 8, z = 9\<rparr>, magnetometerRadius = 480\<rparr>)
        \<lparr>chip = (\<lambda>r. 0)(0x00 := 0xA0, 0x36 := 0x0F, 0x35 := 0xFF), journal = []\<rparr>)
   = Some (Inr (),
        [ReadByte 0x28 0x00 (Inr 0xA0), ReadByte 0x28 0x07 (Inr 0x00),
         ReadByte 0x28 0x36 (Inr 0x0F),
         WriteByte 0x28 0x3D 0x00 None, Timer 1000,
         WriteByte 0x28 0x3F 0x20 None, Timer 1000,
         ReadByte 0x28 0x00 (Inr 0xA0),
         WriteByte 0x28 0x55 0xFF None, WriteByte 0x28 0x56 0xFF None,
         WriteByte 0x28 0x57 2 None, WriteByte 0x28 0x58 0 None,
         WriteByte 0x28 0x59 3 None, WriteByte 0x28 0x5A 0 None,
         WriteByte 0x28 0x67 0xE8 None, WriteByte 0x28 0x68 0x03 None,
         WriteByte 0x28 0x61 4 None, WriteByte 0x28 0x62 0 None,
         WriteByte 0x28 0x63 5 None, WriteByte 0x28 0x64 0 None,
         WriteByte 0x28 0x65 6 None, WriteByte 0x28 0x66 0 None,
         WriteByte 0x28 0x5B 7 None, WriteByte 0x28 0x5C 0 None,
         WriteByte 0x28 0x5D 8 None, WriteByte 0x28 0x5E 0 None,
         WriteByte 0x28 0x5F 9 None, WriteByte 0x28 0x60 0 None,
         WriteByte 0x28 0x69 0xE0 None, WriteByte 0x28 0x6A 0x01 None,
         WriteByte 0x28 0x3D 0x0C None, Timer 1000])"
    by (simp add: priv_initialize_def preCalibrationInitializationStream_def
          priv_initializePreCalibration_def priv_confirmBoot_def subscribe_def
          priv_ensurePage_def priv_confirmSelfTest_def priv_reset_def mergeMap_def
          emptyObservable_def throwObservable_def priv_setOrAwaitCalibrationData_def
          priv_writeCalibrationData_def run_defs int16ToLsb_def int16ToMsb_def js_ops
          registerFile_def mergeObservable.simps)
next
  show "map_option (\<lambda>(r, w'). (r, journal w'))
     (priv_initialize (driverOn registerFile) ndof None
        \<lparr>chip = (\<lambda>r. 0)(0x00 := 0xA0, 0x36 := 0x0F, 0x35 := 0xFF), journal = []\<rparr>)
   = Some (Inr (),
        [ReadByte 0x28 0x00 (Inr 0xA0), ReadByte 0x28 0x07 (Inr 0x00),
         ReadByte 0x28 0x36 (Inr 0x0F),
         WriteByte 0x28 0x3D 0x00 None, Timer 1000,
         WriteByte 0x28 0x3F 0x20 None, Timer 1000,
         ReadByte 0x28 0x00 (Inr 0xA0),
         WriteByte 0x28 0x3D 0x0B None, Timer 1000,
         ReadByte 0x28 0x35 (Inr 0xFF), ReadByte 0x28 0x35 (Inr 0xFF),
         ReadByte 0x28 0x35 (Inr 0xFF), ReadByte 0x28 0x35 (Inr 0xFF),
         WriteByte 0x28 0x3D 0x0C None, Timer 1000])"
    by (simp add: priv_initialize_def preCalibrationInitializationStream_def
          priv_initializePreCalibration_def priv_confirmBoot_def subscribe_def
          priv_ensurePage_def priv_confirmSelfTest_def priv_reset_def mergeMap_def
          emptyObservable_def throwObservable_def priv_setOrAwaitCalibrationData_def
          run_defs js_ops registerFile_def mergeObservable.simps)
qed

end
